theory Spec2Isabelle
  imports Main "HOL-Library.Word"
begin

section \<open>Surface GPE/lid driver: data model\<close>

text \<open>
  The driver (\<^verbatim>\<open>src/module/surface_gpe.c\<close>) enables wake-up from suspend through
  the lid on Microsoft Surface devices. It looks the running machine up in a DMI table,
  registers a platform device carrying the matching lid descriptor, and in the platform
  driver callbacks marks, enables and masks one ACPI general purpose event (GPE).

  C integers: \<^verbatim>\<open>u32\<close> and \<^verbatim>\<open>acpi_status\<close> are 32-bit words; the \<^verbatim>\<open>int\<close>
  return codes are only ever \<open>0\<close>, a negated errno constant or a status handed through
  unchanged, so they are integers.
\<close>

type_synonym u32 = "32 word"

type_synonym acpi_status = "32 word"

text \<open>\<^verbatim>\<open>struct surface_lid_device\<close> (lines 26-29).\<close>

record surface_lid_device =
  acpi_path :: string
  gpe_number :: u32

text \<open>The C literal \<^verbatim>\<open>"\\_SB.LID0"\<close>: a backslash followed by \<^verbatim>\<open>_SB.LID0\<close>.\<close>

definition SB_LID0 :: string where
  "SB_LID0 = CHR 0x5C # ''_SB.LID0''"

definition lid_device_l17 :: surface_lid_device where
  "lid_device_l17 = \<lparr>acpi_path = SB_LID0, gpe_number = 0x17\<rparr>"

definition lid_device_l4D :: surface_lid_device where
  "lid_device_l4D = \<lparr>acpi_path = SB_LID0, gpe_number = 0x4D\<rparr>"

definition lid_device_l4F :: surface_lid_device where
  "lid_device_l4F = \<lparr>acpi_path = SB_LID0, gpe_number = 0x4F\<rparr>"

definition lid_device_l57 :: surface_lid_device where
  "lid_device_l57 = \<lparr>acpi_path = SB_LID0, gpe_number = 0x57\<rparr>"

subsection \<open>The DMI table\<close>

text \<open>
  The DMI fields the table uses (the kernel's \<^verbatim>\<open>enum dmi_field\<close> has more), one match
  condition as the macro \<^verbatim>\<open>DMI_EXACT_MATCH(slot, substr)\<close> builds it, and
  \<^verbatim>\<open>struct dmi_system_id\<close>. \<open>driver_data\<close> is a pointer: \<open>None\<close> is \<^verbatim>\<open>NULL\<close>.
  An entry with no condition is the \<^verbatim>\<open>{ }\<close> that ends a C table.
\<close>

datatype dmi_field = DMI_SYS_VENDOR | DMI_PRODUCT_NAME | DMI_PRODUCT_SKU

datatype dmi_strmatch = DMI_EXACT_MATCH dmi_field string

record dmi_system_id =
  ident :: string
  matches :: "dmi_strmatch list"
  driver_data :: "surface_lid_device option"

definition Microsoft :: string where
  "Microsoft = ''Microsoft Corporation''"

text \<open>\<^verbatim>\<open>dmi_lid_device_table\<close> (lines 54-156), entry by entry, with its terminator.\<close>

definition dmi_lid_device_table :: "dmi_system_id list" where
  "dmi_lid_device_table =
   [\<lparr>ident = ''Surface Pro 4'',
     matches = [DMI_EXACT_MATCH DMI_SYS_VENDOR Microsoft,
                DMI_EXACT_MATCH DMI_PRODUCT_NAME ''Surface Pro 4''],
     driver_data = Some lid_device_l17\<rparr>,
    \<lparr>ident = ''Surface Pro 5'',
     matches = [DMI_EXACT_MATCH DMI_SYS_VENDOR Microsoft,
                DMI_EXACT_MATCH DMI_PRODUCT_SKU ''Surface_Pro_1796''],
     driver_data = Some lid_device_l4F\<rparr>,
    \<lparr>ident = ''Surface Pro 5 (LTE)'',
     matches = [DMI_EXACT_MATCH DMI_SYS_VENDOR Microsoft,
                DMI_EXACT_MATCH DMI_PRODUCT_SKU ''Surface_Pro_1807''],
     driver_data = Some lid_device_l4F\<rparr>,
    \<lparr>ident = ''Surface Pro 6'',
     matches = [DMI_EXACT_MATCH DMI_SYS_VENDOR Microsoft,
                DMI_EXACT_MATCH DMI_PRODUCT_NAME ''Surface Pro 6''],
     driver_data = Some lid_device_l4F\<rparr>,
    \<lparr>ident = ''Surface Pro 7'',
     matches = [DMI_EXACT_MATCH DMI_SYS_VENDOR Microsoft,
                DMI_EXACT_MATCH DMI_PRODUCT_NAME ''Surface Pro 7''],
     driver_data = Some lid_device_l4D\<rparr>,
    \<lparr>ident = ''Surface Book 1'',
     matches = [DMI_EXACT_MATCH DMI_SYS_VENDOR Microsoft,
                DMI_EXACT_MATCH DMI_PRODUCT_NAME ''Surface Book''],
     driver_data = Some lid_device_l17\<rparr>,
    \<lparr>ident = ''Surface Book 2'',
     matches = [DMI_EXACT_MATCH DMI_SYS_VENDOR Microsoft,
                DMI_EXACT_MATCH DMI_PRODUCT_NAME ''Surface Book 2''],
     driver_data = Some lid_device_l17\<rparr>,
    \<lparr>ident = ''Surface Book 3'',
     matches = [DMI_EXACT_MATCH DMI_SYS_VENDOR Microsoft,
                DMI_EXACT_MATCH DMI_PRODUCT_NAME ''Surface Book 3''],
     driver_data = Some lid_device_l4D\<rparr>,
    \<lparr>ident = ''Surface Laptop 1'',
     matches = [DMI_EXACT_MATCH DMI_SYS_VENDOR Microsoft,
                DMI_EXACT_MATCH DMI_PRODUCT_NAME ''Surface Laptop''],
     driver_data = Some lid_device_l57\<rparr>,
    \<lparr>ident = ''Surface Laptop 2'',
     matches = [DMI_EXACT_MATCH DMI_SYS_VENDOR Microsoft,
                DMI_EXACT_MATCH DMI_PRODUCT_NAME ''Surface Laptop 2''],
     driver_data = Some lid_device_l57\<rparr>,
    \<lparr>ident = ''Surface Laptop 3 (Intel 13'' @ [CHR 0x22, CHR '')''],
     matches = [DMI_EXACT_MATCH DMI_SYS_VENDOR Microsoft,
                DMI_EXACT_MATCH DMI_PRODUCT_SKU ''Surface_Laptop_3_1867:1868''],
     driver_data = Some lid_device_l4D\<rparr>,
    \<lparr>ident = [], matches = [], driver_data = None\<rparr>]"

subsection \<open>The identity of the running system and the matcher\<close>

text \<open>
  What the platform reports about the machine: the kernel's \<^verbatim>\<open>dmi_ident[]\<close> array at
  the three fields above. A field the firmware does not report is \<^verbatim>\<open>NULL\<close>.
\<close>

record system_identity =
  sys_vendor :: "string option"
  product_name :: "string option"
  product_sku :: "string option"

fun dmi_ident :: "system_identity \<Rightarrow> dmi_field \<Rightarrow> string option" where
  "dmi_ident sysid DMI_SYS_VENDOR = sys_vendor sysid"
| "dmi_ident sysid DMI_PRODUCT_NAME = product_name sysid"
| "dmi_ident sysid DMI_PRODUCT_SKU = product_sku sysid"

text \<open>
  Modelled from the spec: one condition of a predicate, which the kernel's
  \<^verbatim>\<open>dmi_matches\<close> (not part of this repository) evaluates: an exact, case-sensitive
  comparison of one identity attribute with a string. An attribute the system does not
  report does not match.
\<close>

fun dmi_strmatch_holds :: "system_identity \<Rightarrow> dmi_strmatch \<Rightarrow> bool" where
  "dmi_strmatch_holds sysid (DMI_EXACT_MATCH slot substr) = (dmi_ident sysid slot = Some substr)"

text \<open>
  Modelled from the spec: the kernel's \<^verbatim>\<open>dmi_matches\<close>, which is not part of this
  repository. The predicate of an entry is the conjunction of its conditions.
\<close>

definition dmi_matches :: "system_identity \<Rightarrow> dmi_system_id \<Rightarrow> bool" where
  "dmi_matches sysid d = list_all (dmi_strmatch_holds sysid) (matches d)"

text \<open>
  Modelled from the spec: the kernel's \<^verbatim>\<open>dmi_is_end_of_table\<close>, which is not part of
  this repository. The table is exhausted at the entry without conditions that closes the
  C array (line 155 of the source).
\<close>

definition dmi_is_end_of_table :: "dmi_system_id \<Rightarrow> bool" where
  "dmi_is_end_of_table d = (matches d = [])"

text \<open>
  Modelled from the spec: the kernel's \<^verbatim>\<open>dmi_first_match\<close>, which is not part of this
  repository. It iterates the table in order, evaluates each entry's predicate against the
  identity and returns the first entry whose predicate is satisfied; it returns none when
  the table is exhausted. A list without a terminator is exhausted at its end.
\<close>

fun dmi_first_match :: "system_identity \<Rightarrow> dmi_system_id list \<Rightarrow> dmi_system_id option" where
  "dmi_first_match sysid [] = None"
| "dmi_first_match sysid (d # ds) =
     (if dmi_is_end_of_table d then None
      else if dmi_matches sysid d then Some d
      else dmi_first_match sysid ds)"

text \<open>
  The matcher of the driver, lines 258-262 of \<^verbatim>\<open>surface_gpe_init\<close>:
  \<^verbatim>\<open>match = dmi_first_match(table); if (!match) return 0; lid = match->driver_data;\<close>
\<close>

definition match_lid_device ::
  "system_identity \<Rightarrow> dmi_system_id list \<Rightarrow> surface_lid_device option" where
  "match_lid_device sysid table =
     (case dmi_first_match sysid table of
        None \<Rightarrow> None
      | Some m \<Rightarrow> driver_data m)"

section \<open>The firmware interface\<close>

text \<open>
  The ACPI calls the driver makes. ACPICA is outside the repository, so the firmware is a
  parameter: a function that answers each call with a status, and may answer differently
  depending on everything that was called before. The log records every call made, in
  order, with the status it got. \<open>0\<close> is \<^verbatim>\<open>AE_OK\<close>; the source tests
  \<^verbatim>\<open>if (status)\<close>.
\<close>

datatype gpe_action = ACPI_GPE_ENABLE | ACPI_GPE_DISABLE

datatype acpi_call =
    Acpi_get_handle string
  | Acpi_mark_gpe_for_wake u32
  | Acpi_enable_gpe u32
  | Acpi_disable_gpe u32
  | Acpi_set_gpe_wake_mask u32 gpe_action

type_synonym acpi_log = "(acpi_call \<times> acpi_status) list"

type_synonym firmware = "acpi_log \<Rightarrow> acpi_call \<Rightarrow> acpi_status"

definition acpi :: "firmware \<Rightarrow> acpi_call \<Rightarrow> acpi_log \<Rightarrow> acpi_status \<times> acpi_log" where
  "acpi fw c log = (fw log c, log @ [(c, fw log c)])"

text \<open>Errno constants of the kernel (\<^verbatim>\<open>errno-base.h\<close>).\<close>

definition ENOMEM :: int where "ENOMEM = 12"

definition EFAULT :: int where "EFAULT = 14"

definition ENODEV :: int where "ENODEV = 19"

text \<open>A kernel oops: the source dereferences a pointer that is \<^verbatim>\<open>NULL\<close>.\<close>

datatype fault = NULL_dereference

section \<open>The platform driver callbacks\<close>

text \<open>
  The part of \<^verbatim>\<open>struct platform_device\<close> the driver touches:
  \<^verbatim>\<open>dev.platform_data\<close>, the driver data (\<^verbatim>\<open>platform_set_drvdata\<close>), and whether the
  driver core has bound the driver to the device (\<^verbatim>\<open>dev.driver\<close>).
\<close>

record platform_device =
  platform_data :: "surface_lid_device option"
  drvdata :: "surface_lid_device option"
  driver_bound :: bool

text \<open>\<^verbatim>\<open>surface_lid_enable_wakeup\<close> (lines 159-170). \<^verbatim>\<open>dev->gpe_number\<close> reads through \<open>dev\<close>.\<close>

definition surface_lid_enable_wakeup ::
  "firmware \<Rightarrow> surface_lid_device option \<Rightarrow> bool \<Rightarrow> acpi_log \<Rightarrow> fault + (int \<times> acpi_log)" where
  "surface_lid_enable_wakeup fw dev enable log =
     (case dev of
        None \<Rightarrow> Inl NULL_dereference
      | Some d \<Rightarrow>
          let action = (if enable then ACPI_GPE_ENABLE else ACPI_GPE_DISABLE);
              (status, log1) = acpi fw (Acpi_set_gpe_wake_mask (gpe_number d) action) log
          in if status \<noteq> 0 then Inr (- EFAULT, log1) else Inr (0, log1))"

text \<open>\<^verbatim>\<open>surface_gpe_suspend\<close> and \<^verbatim>\<open>surface_gpe_resume\<close> (lines 173-187).\<close>

definition surface_gpe_suspend ::
  "firmware \<Rightarrow> platform_device \<Rightarrow> acpi_log \<Rightarrow> fault + (int \<times> acpi_log)" where
  "surface_gpe_suspend fw pdev log = surface_lid_enable_wakeup fw (drvdata pdev) True log"

definition surface_gpe_resume ::
  "firmware \<Rightarrow> platform_device \<Rightarrow> acpi_log \<Rightarrow> fault + (int \<times> acpi_log)" where
  "surface_gpe_resume fw pdev log = surface_lid_enable_wakeup fw (drvdata pdev) False log"

text \<open>\<^verbatim>\<open>surface_gpe_probe\<close> (lines 192-221).\<close>

definition surface_gpe_probe ::
  "firmware \<Rightarrow> platform_device \<Rightarrow> acpi_log \<Rightarrow> fault + (int \<times> platform_device \<times> acpi_log)" where
  "surface_gpe_probe fw pdev log =
     (case platform_data pdev of
        None \<Rightarrow> Inr (- ENODEV, pdev, log)
      | Some dev \<Rightarrow>
          let (status, log1) = acpi fw (Acpi_get_handle (acpi_path dev)) log in
          if status \<noteq> 0 then Inr (- EFAULT, pdev, log1)
          else
            let (status, log2) = acpi fw (Acpi_mark_gpe_for_wake (gpe_number dev)) log1 in
            if status \<noteq> 0 then Inr (- EFAULT, pdev, log2)
            else
              let (status, log3) = acpi fw (Acpi_enable_gpe (gpe_number dev)) log2 in
              if status \<noteq> 0 then Inr (- EFAULT, pdev, log3)
              else
                (case surface_lid_enable_wakeup fw (Some dev) False log3 of
                   Inl f \<Rightarrow> Inl f
                 | Inr (status, log4) \<Rightarrow>
                     if status \<noteq> 0 then
                       let (_, log5) = acpi fw (Acpi_disable_gpe (gpe_number dev)) log4
                       in Inr (status, pdev, log5)
                     else Inr (0, pdev\<lparr>drvdata := Some dev\<rparr>, log4)))"

text \<open>\<^verbatim>\<open>surface_gpe_remove\<close> (lines 223-233). Both results of the calls are discarded.\<close>

definition surface_gpe_remove ::
  "firmware \<Rightarrow> platform_device \<Rightarrow> acpi_log \<Rightarrow> fault + (int \<times> platform_device \<times> acpi_log)" where
  "surface_gpe_remove fw pdev log =
     (let dev = drvdata pdev in
      case surface_lid_enable_wakeup fw dev False log of
        Inl f \<Rightarrow> Inl f
      | Inr (_, log1) \<Rightarrow>
          (case dev of
             None \<Rightarrow> Inl NULL_dereference
           | Some d \<Rightarrow>
               let (_, log2) = acpi fw (Acpi_disable_gpe (gpe_number d)) log1
               in Inr (0, pdev\<lparr>drvdata := None\<rparr>, log2)))"

section \<open>Module initialisation and exit\<close>

text \<open>
  The platform bus is outside the repository. What its calls answer is a parameter; what
  they hold on success is counted: the platform drivers registered and the platform
  devices allocated and not yet released.
\<close>

record platform_env =
  driver_register_status :: int
  device_alloc_ok :: bool
  device_add_data_status :: int
  device_add_status :: int

text \<open>
  The global \<^verbatim>\<open>surface_gpe_device\<close> (line 246) is \<^verbatim>\<open>NULL\<close> or points to the one
  device the module allocated; the state holds that device in its place.
\<close>

record module_state =
  surface_gpe_device :: "platform_device option"
  registered_drivers :: nat
  live_devices :: nat
  fw_log :: acpi_log

definition platform_driver_register :: "platform_env \<Rightarrow> module_state \<Rightarrow> int \<times> module_state" where
  "platform_driver_register env s =
     (if driver_register_status env \<noteq> 0 then (driver_register_status env, s)
      else (0, s\<lparr>registered_drivers := registered_drivers s + 1\<rparr>))"

definition platform_driver_unregister :: "module_state \<Rightarrow> module_state" where
  "platform_driver_unregister s = s\<lparr>registered_drivers := registered_drivers s - 1\<rparr>"

definition platform_device_alloc ::
  "platform_env \<Rightarrow> module_state \<Rightarrow> platform_device option \<times> module_state" where
  "platform_device_alloc env s =
     (if device_alloc_ok env
      then (Some \<lparr>platform_data = None, drvdata = None, driver_bound = False\<rparr>,
            s\<lparr>live_devices := live_devices s + 1\<rparr>)
      else (None, s))"

definition platform_device_put :: "module_state \<Rightarrow> module_state" where
  "platform_device_put s = s\<lparr>live_devices := live_devices s - 1\<rparr>"

definition platform_device_add_data ::
  "platform_env \<Rightarrow> platform_device \<Rightarrow> surface_lid_device option \<Rightarrow> int \<times> platform_device" where
  "platform_device_add_data env pdev data =
     (if device_add_data_status env \<noteq> 0 then (device_add_data_status env, pdev)
      else (0, pdev\<lparr>platform_data := data\<rparr>))"

definition platform_device_add :: "platform_env \<Rightarrow> platform_device \<Rightarrow> int" where
  "platform_device_add env pdev = device_add_status env"

text \<open>\<^verbatim>\<open>surface_gpe_init\<close> (lines 248-290).\<close>

definition surface_gpe_init ::
  "platform_env \<Rightarrow> system_identity \<Rightarrow> dmi_system_id list \<Rightarrow> module_state \<Rightarrow> int \<times> module_state" where
  "surface_gpe_init env sysid table s0 =
     (let s = s0\<lparr>surface_gpe_device := None\<rparr> in
      case dmi_first_match sysid table of
        None \<Rightarrow> (0, s)
      | Some m \<Rightarrow>
          let lid = driver_data m;
              (status, s1) = platform_driver_register env s in
          if status \<noteq> 0 then (status, s1)
          else
            (case platform_device_alloc env s1 of
               (None, s2) \<Rightarrow> (- ENOMEM, platform_driver_unregister s2)
             | (Some pdev, s2) \<Rightarrow>
                 let (status, pdev1) = platform_device_add_data env pdev lid in
                 if status \<noteq> 0
                 then (status, platform_driver_unregister (platform_device_put s2))
                 else
                   let status = platform_device_add env pdev1 in
                   if status \<noteq> 0
                   then (status, platform_driver_unregister (platform_device_put s2))
                   else (0, s2\<lparr>surface_gpe_device := Some pdev1\<rparr>)))"

text \<open>
  Modelled from the spec: the driver core, which is not part of this repository, calling
  the registration hook. Once the device is on the bus it calls \<^verbatim>\<open>.probe\<close> for it and
  binds the driver when probe returns \<open>0\<close>.
\<close>

definition driver_core_probe :: "firmware \<Rightarrow> module_state \<Rightarrow> fault + (int \<times> module_state)" where
  "driver_core_probe fw s =
     (case surface_gpe_device s of
        None \<Rightarrow> Inr (0, s)
      | Some pdev \<Rightarrow>
          (case surface_gpe_probe fw pdev (fw_log s) of
             Inl f \<Rightarrow> Inl f
           | Inr (rc, pdev1, log1) \<Rightarrow>
               Inr (rc, s\<lparr>surface_gpe_device := Some (pdev1\<lparr>driver_bound := (rc = 0)\<rparr>),
                          fw_log := log1\<rparr>)))"

text \<open>
  Modelled from the spec: the kernel's \<^verbatim>\<open>platform_device_unregister\<close>, which is not
  part of this repository. Teardown of the wake source (\<^verbatim>\<open>.remove\<close>) is called when, and
  only when, the driver is bound to the device; the device is then released.
\<close>

definition platform_device_unregister ::
  "firmware \<Rightarrow> platform_device \<Rightarrow> module_state \<Rightarrow> fault + module_state" where
  "platform_device_unregister fw pdev s =
     (if driver_bound pdev then
        (case surface_gpe_remove fw pdev (fw_log s) of
           Inl f \<Rightarrow> Inl f
         | Inr (_, pdev1, log1) \<Rightarrow>
             Inr (platform_device_put
                    (s\<lparr>surface_gpe_device := Some (pdev1\<lparr>driver_bound := False\<rparr>),
                       fw_log := log1\<rparr>)))
      else Inr (platform_device_put s))"

text \<open>\<^verbatim>\<open>surface_gpe_exit\<close> (lines 292-299).\<close>

definition surface_gpe_exit :: "firmware \<Rightarrow> module_state \<Rightarrow> fault + module_state" where
  "surface_gpe_exit fw s =
     (case surface_gpe_device s of
        None \<Rightarrow> Inr s
      | Some pdev \<Rightarrow>
          (case platform_device_unregister fw pdev s of
             Inl f \<Rightarrow> Inl f
           | Inr s1 \<Rightarrow> Inr (platform_driver_unregister s1)))"

text \<open>
  Modelled from the spec: the initialisation hook \<^verbatim>\<open>on_init() -> Ok|Skip|Err\<close>, which
  the source splits over \<^verbatim>\<open>surface_gpe_init\<close> and the probe the driver core runs for the
  device just added. \<open>Init_skip\<close> is the return of \<open>0\<close> with no device created.
\<close>

datatype init_result = Init_ok | Init_skip | Init_err int

definition on_init ::
  "platform_env \<Rightarrow> firmware \<Rightarrow> system_identity \<Rightarrow> dmi_system_id list \<Rightarrow> module_state
     \<Rightarrow> fault + (init_result \<times> module_state)" where
  "on_init env fw sysid table s0 =
     (case surface_gpe_init env sysid table s0 of
        (rc, s1) \<Rightarrow>
          if rc \<noteq> 0 then Inr (Init_err rc, s1)
          else if surface_gpe_device s1 = None then Inr (Init_skip, s1)
          else
            (case driver_core_probe fw s1 of
               Inl f \<Rightarrow> Inl f
             | Inr (rc1, s2) \<Rightarrow> Inr (if rc1 = 0 then Init_ok else Init_err rc1, s2)))"

section \<open>What the firmware holds\<close>

text \<open>
  Modelled from the spec: the state the firmware keeps, which the driver never reads.
  The wake mask of a GPE is what the last accepted \<^verbatim>\<open>acpi_set_gpe_wake_mask\<close> set; a
  call the firmware refused changes nothing. Without this driver the kernel leaves GPE
  wake-ups disabled (header comment of the source). The enable count of a GPE goes up
  with each accepted \<^verbatim>\<open>acpi_enable_gpe\<close> and down with each accepted
  \<^verbatim>\<open>acpi_disable_gpe\<close>.
\<close>

fun mask_step :: "u32 \<Rightarrow> gpe_action \<Rightarrow> acpi_call \<times> acpi_status \<Rightarrow> gpe_action" where
  "mask_step g m (Acpi_set_gpe_wake_mask g' a, st) = (if g' = g \<and> st = 0 then a else m)"
| "mask_step g m (_, st) = m"

definition wake_mask :: "u32 \<Rightarrow> acpi_log \<Rightarrow> gpe_action" where
  "wake_mask g log = foldl (mask_step g) ACPI_GPE_DISABLE log"

fun refs_step :: "u32 \<Rightarrow> int \<Rightarrow> acpi_call \<times> acpi_status \<Rightarrow> int" where
  "refs_step g n (Acpi_enable_gpe g', st) = (if g' = g \<and> st = 0 then n + 1 else n)"
| "refs_step g n (Acpi_disable_gpe g', st) = (if g' = g \<and> st = 0 then n - 1 else n)"
| "refs_step g n (_, st) = n"

definition gpe_refcount :: "u32 \<Rightarrow> acpi_log \<Rightarrow> int" where
  "gpe_refcount g log = foldl (refs_step g) 0 log"

text \<open>
  Modelled from the spec: the lifecycle states \<open>Unregistered\<close>, \<open>Registered(disarmed)\<close>
  and \<open>Registered(armed)\<close>, read off the device and the firmware. The wake source is
  registered while the device carries its descriptor as driver data.
\<close>

datatype lifecycle = Unregistered | Registered_disarmed | Registered_armed

definition lifecycle_state :: "platform_device \<Rightarrow> acpi_log \<Rightarrow> lifecycle" where
  "lifecycle_state pdev log =
     (case drvdata pdev of
        None \<Rightarrow> Unregistered
      | Some d \<Rightarrow>
          (case wake_mask (gpe_number d) log of
             ACPI_GPE_ENABLE \<Rightarrow> Registered_armed
           | ACPI_GPE_DISABLE \<Rightarrow> Registered_disarmed))"

section \<open>Concrete machines, firmware and devices\<close>

text \<open>Inputs at which the theorems below are instantiated.\<close>

definition book_with_pro5_sku :: system_identity where
  "book_with_pro5_sku =
     \<lparr>sys_vendor = Some ''Microsoft Corporation'', product_name = Some ''Surface Book'',
      product_sku = Some ''Surface_Pro_1796''\<rparr>"

definition other_machine :: system_identity where
  "other_machine =
     \<lparr>sys_vendor = Some ''Acme Corp'', product_name = Some ''Surface Pro 4'',
      product_sku = None\<rparr>"

definition surface_pro_5 :: system_identity where
  "surface_pro_5 =
     \<lparr>sys_vendor = Some ''Microsoft Corporation'', product_name = Some ''Surface Pro'',
      product_sku = Some ''Surface_Pro_1796''\<rparr>"

definition fw_ok :: firmware where
  "fw_ok log c = 0"

definition fw_refuses_mask :: firmware where
  "fw_refuses_mask log c = (case c of Acpi_set_gpe_wake_mask g a \<Rightarrow> 1 | _ \<Rightarrow> 0)"

definition fw_refuses_mark :: firmware where
  "fw_refuses_mark log c = (case c of Acpi_mark_gpe_for_wake g \<Rightarrow> 5 | _ \<Rightarrow> 0)"

text \<open>
  A firmware that accepts every call until the wake mask of GPE \<open>0x4F\<close> has been
  enabled and refuses every call from then on, and the log of a successful probe and
  suspend of the \<open>0x4F\<close> lid device.
\<close>

definition fw_refuses_once_armed :: firmware where
  "fw_refuses_once_armed log c =
     (if (Acpi_set_gpe_wake_mask 0x4F ACPI_GPE_ENABLE, 0) \<in> set log then 1 else 0)"

definition log_armed :: acpi_log where
  "log_armed =
     [(Acpi_get_handle SB_LID0, 0), (Acpi_mark_gpe_for_wake 0x4F, 0),
      (Acpi_enable_gpe 0x4F, 0), (Acpi_set_gpe_wake_mask 0x4F ACPI_GPE_DISABLE, 0),
      (Acpi_set_gpe_wake_mask 0x4F ACPI_GPE_ENABLE, 0)]"

definition env_ok :: platform_env where
  "env_ok = \<lparr>driver_register_status = 0, device_alloc_ok = True,
             device_add_data_status = 0, device_add_status = 0\<rparr>"

definition env_add_fails :: platform_env where
  "env_add_fails = \<lparr>driver_register_status = 0, device_alloc_ok = True,
                    device_add_data_status = 0, device_add_status = - 17\<rparr>"

definition state_at_load :: module_state where
  "state_at_load =
     \<lparr>surface_gpe_device = None, registered_drivers = 0, live_devices = 0, fw_log = []\<rparr>"

definition pdev_l4F :: platform_device where
  "pdev_l4F = \<lparr>platform_data = Some lid_device_l4F, drvdata = None, driver_bound = False\<rparr>"

definition state_probe_failed :: module_state where
  "state_probe_failed =
     \<lparr>surface_gpe_device = Some pdev_l4F, registered_drivers = 1, live_devices = 1,
      fw_log = [(Acpi_get_handle SB_LID0, 7)]\<rparr>"

definition pdev_l4F_registered :: platform_device where
  "pdev_l4F_registered =
     \<lparr>platform_data = Some lid_device_l4F, drvdata = Some lid_device_l4F, driver_bound = True\<rparr>"

section \<open>The matcher\<close>

lemma not_matching_has_conditions:
  "\<not> dmi_matches sysid d \<Longrightarrow> \<not> dmi_is_end_of_table d"
  by (auto simp: dmi_matches_def dmi_is_end_of_table_def)

lemma dmi_first_match_earliest:
  "i < length table \<Longrightarrow> \<not> dmi_is_end_of_table (table ! i) \<Longrightarrow> dmi_matches sysid (table ! i)
   \<Longrightarrow> \<forall>k<i. \<not> dmi_matches sysid (table ! k)
   \<Longrightarrow> dmi_first_match sysid table = Some (table ! i)"
proof (induction table arbitrary: i)
  case Nil
  then show ?case by simp
next
  case (Cons d ds)
  show ?case
  proof (cases i)
    case 0
    with Cons.prems show ?thesis by simp
  next
    case (Suc n)
    from Cons.prems Suc have d: "\<not> dmi_matches sysid d" by auto
    from Cons.prems Suc have "\<forall>k<n. \<not> dmi_matches sysid (ds ! k)" by auto
    with Cons.prems Suc have "dmi_first_match sysid ds = Some (ds ! n)"
      by (intro Cons.IH) auto
    with d not_matching_has_conditions[OF d] Suc show ?thesis by simp
  qed
qed

lemma dmi_first_match_none:
  "\<forall>d\<in>set table. \<not> dmi_is_end_of_table d \<longrightarrow> \<not> dmi_matches sysid d
   \<Longrightarrow> dmi_first_match sysid table = None"
  by (induction table) auto

text \<open>
  C1. First match wins: whatever the identity and the table, the matcher returns the
  descriptor of the earliest entry whose predicate the identity satisfies; entries after
  it, satisfied or not, do not matter. Entry \<open>i\<close> is an entry of the table, not its
  terminator.
\<close>

theorem first_match_wins:
  assumes "i < length table" and "\<not> dmi_is_end_of_table (table ! i)"
    and "dmi_matches sysid (table ! i)"
    and "\<forall>k<i. \<not> dmi_matches sysid (table ! k)"
  shows "dmi_first_match sysid table = Some (table ! i) \<and>
         match_lid_device sysid table = driver_data (table ! i)"
  using dmi_first_match_earliest[OF assms] by (simp add: match_lid_device_def)

theorem first_match_wins_witness:
  "dmi_matches book_with_pro5_sku (dmi_lid_device_table ! 1) \<and>
   dmi_matches book_with_pro5_sku (dmi_lid_device_table ! 5) \<and>
   driver_data (dmi_lid_device_table ! 1) = Some lid_device_l4F \<and>
   driver_data (dmi_lid_device_table ! 5) = Some lid_device_l17 \<and>
   match_lid_device book_with_pro5_sku dmi_lid_device_table = Some lid_device_l4F"
  using first_match_wins[of 1 dmi_lid_device_table book_with_pro5_sku]
  by (simp add: dmi_lid_device_table_def book_with_pro5_sku_def dmi_matches_def
      dmi_is_end_of_table_def Microsoft_def)

text \<open>
  C2. When the identity satisfies the predicate of no table entry, the matcher returns
  none, \<^verbatim>\<open>surface_gpe_init\<close> returns \<open>0\<close> without creating a device, the
  initialisation hook reports a skip, and no firmware call is made: the log is unchanged.
\<close>

theorem no_match_skips:
  assumes "\<forall>d\<in>set table. \<not> dmi_is_end_of_table d \<longrightarrow> \<not> dmi_matches sysid d"
  shows "match_lid_device sysid table = None \<and>
         surface_gpe_init env sysid table s = (0, s\<lparr>surface_gpe_device := None\<rparr>) \<and>
         on_init env fw sysid table s = Inr (Init_skip, s\<lparr>surface_gpe_device := None\<rparr>) \<and>
         fw_log (snd (surface_gpe_init env sysid table s)) = fw_log s"
  using dmi_first_match_none[OF assms]
  by (simp add: match_lid_device_def surface_gpe_init_def on_init_def)

theorem no_match_skips_witness:
  "filter (\<lambda>d. \<not> dmi_is_end_of_table d \<and> dmi_matches other_machine d) dmi_lid_device_table = [] \<and>
   match_lid_device other_machine dmi_lid_device_table = None \<and>
   surface_gpe_init env_ok other_machine dmi_lid_device_table state_at_load = (0, state_at_load) \<and>
   on_init env_ok fw_ok other_machine dmi_lid_device_table state_at_load
     = Inr (Init_skip, state_at_load)"
proof -
  have h: "\<forall>d\<in>set dmi_lid_device_table. \<not> dmi_is_end_of_table d \<longrightarrow> \<not> dmi_matches other_machine d"
    by (simp add: dmi_lid_device_table_def other_machine_def dmi_matches_def
      dmi_is_end_of_table_def Microsoft_def)
  have e: "filter (\<lambda>d. \<not> dmi_is_end_of_table d \<and> dmi_matches other_machine d)
             dmi_lid_device_table = []"
    using h by (auto simp: filter_empty_conv)
  show ?thesis
    using e no_match_skips[OF h, of env_ok state_at_load fw_ok]
    by (simp add: state_at_load_def)
qed

section \<open>The callbacks\<close>

lemma enable_wakeup_registered:
  "surface_lid_enable_wakeup fw (Some d) enable log =
     Inr (if fw log (Acpi_set_gpe_wake_mask (gpe_number d)
                      (if enable then ACPI_GPE_ENABLE else ACPI_GPE_DISABLE)) \<noteq> 0
          then - EFAULT else 0,
          log @ [(Acpi_set_gpe_wake_mask (gpe_number d)
                    (if enable then ACPI_GPE_ENABLE else ACPI_GPE_DISABLE),
                  fw log (Acpi_set_gpe_wake_mask (gpe_number d)
                    (if enable then ACPI_GPE_ENABLE else ACPI_GPE_DISABLE)))])"
  by (simp add: surface_lid_enable_wakeup_def acpi_def)

lemma wake_mask_append:
  "wake_mask g (log @ [(c, st)]) = mask_step g (wake_mask g log) (c, st)"
  by (simp add: wake_mask_def)

lemma gpe_refcount_append:
  "gpe_refcount g (log @ [(c, st)]) = refs_step g (gpe_refcount g log) (c, st)"
  by (simp add: gpe_refcount_def)

lemma EFAULT_nonzero: "EFAULT \<noteq> 0"
  by (simp add: EFAULT_def)

text \<open>Every way \<^verbatim>\<open>surface_gpe_probe\<close> can run on a device that carries a descriptor.\<close>

lemma probe_cases:
  assumes "platform_data pdev = Some dev"
  shows "(\<exists>st. st \<noteq> 0 \<and> surface_gpe_probe fw pdev log =
            Inr (- EFAULT, pdev, log @ [(Acpi_get_handle (acpi_path dev), st)]))
       \<or> (\<exists>st. st \<noteq> 0 \<and> surface_gpe_probe fw pdev log =
            Inr (- EFAULT, pdev, log @ [(Acpi_get_handle (acpi_path dev), 0),
                                       (Acpi_mark_gpe_for_wake (gpe_number dev), st)]))
       \<or> (\<exists>st. st \<noteq> 0 \<and> surface_gpe_probe fw pdev log =
            Inr (- EFAULT, pdev, log @ [(Acpi_get_handle (acpi_path dev), 0),
                                       (Acpi_mark_gpe_for_wake (gpe_number dev), 0),
                                       (Acpi_enable_gpe (gpe_number dev), st)]))
       \<or> (\<exists>st st'. st \<noteq> 0 \<and> surface_gpe_probe fw pdev log =
            Inr (- EFAULT, pdev, log @ [(Acpi_get_handle (acpi_path dev), 0),
                                       (Acpi_mark_gpe_for_wake (gpe_number dev), 0),
                                       (Acpi_enable_gpe (gpe_number dev), 0),
                                       (Acpi_set_gpe_wake_mask (gpe_number dev) ACPI_GPE_DISABLE, st),
                                       (Acpi_disable_gpe (gpe_number dev), st')]))
       \<or> surface_gpe_probe fw pdev log =
            Inr (0, pdev\<lparr>drvdata := Some dev\<rparr>,
                 log @ [(Acpi_get_handle (acpi_path dev), 0),
                        (Acpi_mark_gpe_for_wake (gpe_number dev), 0),
                        (Acpi_enable_gpe (gpe_number dev), 0),
                        (Acpi_set_gpe_wake_mask (gpe_number dev) ACPI_GPE_DISABLE, 0)])"
  using assms
  by (simp add: surface_gpe_probe_def enable_wakeup_registered acpi_def EFAULT_nonzero)

lemma wake_mask_non_mask_call [simp]:
  "wake_mask g (log @ [(Acpi_get_handle p, st)]) = wake_mask g log"
  "wake_mask g (log @ [(Acpi_mark_gpe_for_wake n, st)]) = wake_mask g log"
  "wake_mask g (log @ [(Acpi_enable_gpe n, st)]) = wake_mask g log"
  "wake_mask g (log @ [(Acpi_disable_gpe n, st)]) = wake_mask g log"
  by (simp_all add: wake_mask_def)

lemma lifecycle_state_cong:
  "(\<And>g. wake_mask g log' = wake_mask g log)
   \<Longrightarrow> lifecycle_state pdev log' = lifecycle_state pdev log"
  by (simp add: lifecycle_state_def split: option.splits)

lemma probe_failure_abort:
  assumes pr: "surface_gpe_probe fw pdev log = Inr (- EFAULT, pdev, log @ new)"
    and wm: "\<And>g. wake_mask g (log @ new) = wake_mask g log"
    and en: "\<And>g. (Acpi_enable_gpe g, 0) \<in> set new \<Longrightarrow> \<exists>st. last new = (Acpi_disable_gpe g, st)"
    and rf: "\<And>g. (\<forall>g' st. (Acpi_disable_gpe g', st) \<in> set new \<longrightarrow> st = 0)
                 \<Longrightarrow> gpe_refcount g (log @ new) = gpe_refcount g log"
  shows "\<exists>rc pdev' new.
           surface_gpe_probe fw pdev log = Inr (rc, pdev', log @ new) \<and>
           ((\<exists>c st. (c, st) \<in> set new \<and> st \<noteq> 0) \<longrightarrow>
              rc = - EFAULT \<and> pdev' = pdev \<and>
              lifecycle_state pdev' (log @ new) = lifecycle_state pdev log \<and>
              (\<forall>g. wake_mask g (log @ new) = wake_mask g log) \<and>
              (\<forall>g. (Acpi_enable_gpe g, 0) \<in> set new \<longrightarrow>
                     (\<exists>st. last new = (Acpi_disable_gpe g, st))) \<and>
              (\<forall>g. (\<forall>g' st. (Acpi_disable_gpe g', st) \<in> set new \<longrightarrow> st = 0) \<longrightarrow>
                     gpe_refcount g (log @ new) = gpe_refcount g log))"
proof -
  have lc: "lifecycle_state pdev (log @ new) = lifecycle_state pdev log"
    by (rule lifecycle_state_cong) (rule wm)
  show ?thesis
    apply (rule exI[of _ "- EFAULT"])
    apply (rule exI[of _ pdev])
    apply (rule exI[of _ new])
    using pr lc wm en rf by blast
qed

text \<open>
  C3. A successful \<^verbatim>\<open>surface_gpe_probe\<close> on a device that carries a descriptor makes
  exactly four firmware calls, in this order and each accepted: the lookup of the
  descriptor's path, marking its GPE for wake, enabling the GPE, and setting its wake
  mask to disabled. It stores the descriptor as driver data: the wake source is
  registered and disarmed.
\<close>

theorem probe_success_sequence:
  assumes "platform_data pdev = Some dev"
    and "surface_gpe_probe fw pdev log = Inr (0, pdev', log')"
  shows "log' = log @ [(Acpi_get_handle (acpi_path dev), 0),
                       (Acpi_mark_gpe_for_wake (gpe_number dev), 0),
                       (Acpi_enable_gpe (gpe_number dev), 0),
                       (Acpi_set_gpe_wake_mask (gpe_number dev) ACPI_GPE_DISABLE, 0)] \<and>
         pdev' = pdev\<lparr>drvdata := Some dev\<rparr> \<and>
         wake_mask (gpe_number dev) log' = ACPI_GPE_DISABLE \<and>
         lifecycle_state pdev' log' = Registered_disarmed"
proof -
  from probe_cases[OF assms(1), of fw log] assms(2)
  have r: "log' = log @ [(Acpi_get_handle (acpi_path dev), 0),
                       (Acpi_mark_gpe_for_wake (gpe_number dev), 0),
                       (Acpi_enable_gpe (gpe_number dev), 0),
                       (Acpi_set_gpe_wake_mask (gpe_number dev) ACPI_GPE_DISABLE, 0)]"
    and p: "pdev' = pdev\<lparr>drvdata := Some dev\<rparr>"
    by (auto simp: EFAULT_def)
  have m: "wake_mask (gpe_number dev) log' = ACPI_GPE_DISABLE"
    by (simp add: r wake_mask_def)
  show ?thesis using r p m by (simp add: lifecycle_state_def)
qed

theorem probe_success_sequence_witness:
  "surface_gpe_probe fw_ok pdev_l4F [] =
     Inr (0, pdev_l4F\<lparr>drvdata := Some lid_device_l4F\<rparr>,
          [(Acpi_get_handle SB_LID0, 0), (Acpi_mark_gpe_for_wake 0x4F, 0),
           (Acpi_enable_gpe 0x4F, 0), (Acpi_set_gpe_wake_mask 0x4F ACPI_GPE_DISABLE, 0)]) \<and>
   lifecycle_state (pdev_l4F\<lparr>drvdata := Some lid_device_l4F\<rparr>)
     [(Acpi_get_handle SB_LID0, 0), (Acpi_mark_gpe_for_wake 0x4F, 0),
      (Acpi_enable_gpe 0x4F, 0), (Acpi_set_gpe_wake_mask 0x4F ACPI_GPE_DISABLE, 0)]
   = Registered_disarmed"
proof -
  have h1: "platform_data pdev_l4F = Some lid_device_l4F"
    by (simp add: pdev_l4F_def)
  have h2: "surface_gpe_probe fw_ok pdev_l4F [] =
     Inr (0, pdev_l4F\<lparr>drvdata := Some lid_device_l4F\<rparr>,
          [(Acpi_get_handle SB_LID0, 0), (Acpi_mark_gpe_for_wake 0x4F, 0),
           (Acpi_enable_gpe 0x4F, 0), (Acpi_set_gpe_wake_mask 0x4F ACPI_GPE_DISABLE, 0)])"
    by (simp add: surface_gpe_probe_def surface_lid_enable_wakeup_def acpi_def fw_ok_def
        pdev_l4F_def lid_device_l4F_def)
  show ?thesis using h2 probe_success_sequence[OF h1 h2] by simp
qed

text \<open>
  C4. Whenever a firmware call of \<^verbatim>\<open>surface_gpe_probe\<close> fails, probing returns
  \<^verbatim>\<open>-EFAULT\<close> and leaves the device as it was, so the wake source stays
  unregistered; no wake mask has changed; and a GPE that had been enabled gets a final
  \<^verbatim>\<open>acpi_disable_gpe\<close>, which, if the firmware accepts it, puts the enable count
  back to what it was.
\<close>

theorem probe_failure_rolls_back:
  assumes "platform_data pdev = Some dev"
  shows "\<exists>rc pdev' new.
           surface_gpe_probe fw pdev log = Inr (rc, pdev', log @ new) \<and>
           ((\<exists>c st. (c, st) \<in> set new \<and> st \<noteq> 0) \<longrightarrow>
              rc = - EFAULT \<and> pdev' = pdev \<and>
              lifecycle_state pdev' (log @ new) = lifecycle_state pdev log \<and>
              (\<forall>g. wake_mask g (log @ new) = wake_mask g log) \<and>
              (\<forall>g. (Acpi_enable_gpe g, 0) \<in> set new \<longrightarrow>
                     (\<exists>st. last new = (Acpi_disable_gpe g, st))) \<and>
              (\<forall>g. (\<forall>g' st. (Acpi_disable_gpe g', st) \<in> set new \<longrightarrow> st = 0) \<longrightarrow>
                     gpe_refcount g (log @ new) = gpe_refcount g log))"
proof -
  consider
    (lookup) st where "st \<noteq> 0" "surface_gpe_probe fw pdev log =
            Inr (- EFAULT, pdev, log @ [(Acpi_get_handle (acpi_path dev), st)])"
  | (mark) st where "st \<noteq> 0" "surface_gpe_probe fw pdev log =
            Inr (- EFAULT, pdev, log @ [(Acpi_get_handle (acpi_path dev), 0),
                                       (Acpi_mark_gpe_for_wake (gpe_number dev), st)])"
  | (enable) st where "st \<noteq> 0" "surface_gpe_probe fw pdev log =
            Inr (- EFAULT, pdev, log @ [(Acpi_get_handle (acpi_path dev), 0),
                                       (Acpi_mark_gpe_for_wake (gpe_number dev), 0),
                                       (Acpi_enable_gpe (gpe_number dev), st)])"
  | (mask) st st' where "st \<noteq> 0" "surface_gpe_probe fw pdev log =
            Inr (- EFAULT, pdev, log @ [(Acpi_get_handle (acpi_path dev), 0),
                                       (Acpi_mark_gpe_for_wake (gpe_number dev), 0),
                                       (Acpi_enable_gpe (gpe_number dev), 0),
                                       (Acpi_set_gpe_wake_mask (gpe_number dev) ACPI_GPE_DISABLE, st),
                                       (Acpi_disable_gpe (gpe_number dev), st')])"
  | (ok) "surface_gpe_probe fw pdev log =
            Inr (0, pdev\<lparr>drvdata := Some dev\<rparr>,
                 log @ [(Acpi_get_handle (acpi_path dev), 0),
                        (Acpi_mark_gpe_for_wake (gpe_number dev), 0),
                        (Acpi_enable_gpe (gpe_number dev), 0),
                        (Acpi_set_gpe_wake_mask (gpe_number dev) ACPI_GPE_DISABLE, 0)])"
    using probe_cases[OF assms, of fw log] by blast
  then show ?thesis
  proof cases
    case lookup
    show ?thesis
      by (rule probe_failure_abort[OF lookup(2)]) (simp_all add: wake_mask_def gpe_refcount_def lookup(1))
  next
    case mark
    show ?thesis
      by (rule probe_failure_abort[OF mark(2)]) (simp_all add: wake_mask_def gpe_refcount_def mark(1))
  next
    case enable
    show ?thesis
      by (rule probe_failure_abort[OF enable(2)]) (simp_all add: wake_mask_def gpe_refcount_def enable(1))
  next
    case mask
    show ?thesis
      by (rule probe_failure_abort[OF mask(2)]) (simp_all add: wake_mask_def gpe_refcount_def mask(1))
  next
    case ok
    show ?thesis
      using ok by fastforce
  qed
qed

theorem probe_failure_rolls_back_witness:
  "surface_gpe_probe fw_refuses_mask pdev_l4F [] =
     Inr (- EFAULT, pdev_l4F,
          [(Acpi_get_handle SB_LID0, 0), (Acpi_mark_gpe_for_wake 0x4F, 0),
           (Acpi_enable_gpe 0x4F, 0), (Acpi_set_gpe_wake_mask 0x4F ACPI_GPE_DISABLE, 1),
           (Acpi_disable_gpe 0x4F, 0)]) \<and>
   lifecycle_state pdev_l4F
          [(Acpi_get_handle SB_LID0, 0), (Acpi_mark_gpe_for_wake 0x4F, 0),
           (Acpi_enable_gpe 0x4F, 0), (Acpi_set_gpe_wake_mask 0x4F ACPI_GPE_DISABLE, 1),
           (Acpi_disable_gpe 0x4F, 0)] = Unregistered \<and>
   gpe_refcount 0x4F
          [(Acpi_get_handle SB_LID0, 0), (Acpi_mark_gpe_for_wake 0x4F, 0),
           (Acpi_enable_gpe 0x4F, 0), (Acpi_set_gpe_wake_mask 0x4F ACPI_GPE_DISABLE, 1),
           (Acpi_disable_gpe 0x4F, 0)] = 0"
proof -
  have h: "platform_data pdev_l4F = Some lid_device_l4F"
    by (simp add: pdev_l4F_def)
  have run: "surface_gpe_probe fw_refuses_mask pdev_l4F [] =
     Inr (- EFAULT, pdev_l4F,
          [(Acpi_get_handle SB_LID0, 0), (Acpi_mark_gpe_for_wake 0x4F, 0),
           (Acpi_enable_gpe 0x4F, 0), (Acpi_set_gpe_wake_mask 0x4F ACPI_GPE_DISABLE, 1),
           (Acpi_disable_gpe 0x4F, 0)])"
    by (simp add: surface_gpe_probe_def surface_lid_enable_wakeup_def acpi_def
        fw_refuses_mask_def pdev_l4F_def lid_device_l4F_def EFAULT_def)
  let ?new = "[(Acpi_get_handle SB_LID0, 0), (Acpi_mark_gpe_for_wake 0x4F, 0),
           (Acpi_enable_gpe 0x4F, 0), (Acpi_set_gpe_wake_mask 0x4F ACPI_GPE_DISABLE, 1),
           (Acpi_disable_gpe 0x4F, 0)]"
  obtain rc pdev' new where
    pr: "surface_gpe_probe fw_refuses_mask pdev_l4F [] = Inr (rc, pdev', [] @ new)"
    and eff: "(\<exists>c st. (c, st) \<in> set new \<and> st \<noteq> 0) \<longrightarrow>
       rc = - EFAULT \<and> pdev' = pdev_l4F \<and>
       lifecycle_state pdev' ([] @ new) = lifecycle_state pdev_l4F [] \<and>
       (\<forall>g. wake_mask g ([] @ new) = wake_mask g []) \<and>
       (\<forall>g. (Acpi_enable_gpe g, 0) \<in> set new \<longrightarrow> (\<exists>st. last new = (Acpi_disable_gpe g, st))) \<and>
       (\<forall>g. (\<forall>g' st. (Acpi_disable_gpe g', st) \<in> set new \<longrightarrow> st = 0) \<longrightarrow>
              gpe_refcount g ([] @ new) = gpe_refcount g [])"
    using probe_failure_rolls_back[OF h, of fw_refuses_mask "[]"] by blast
  from pr run have n: "new = ?new" and p: "pdev' = pdev_l4F" by simp_all
  have failed: "\<exists>c st. (c, st) \<in> set new \<and> st \<noteq> 0"
    unfolding n by (rule exI[of _ "Acpi_set_gpe_wake_mask 0x4F ACPI_GPE_DISABLE"], rule exI[of _ 1]) simp
  from eff failed have lc: "lifecycle_state pdev' ([] @ new) = lifecycle_state pdev_l4F []"
    and rf: "(\<forall>g' st. (Acpi_disable_gpe g', st) \<in> set new \<longrightarrow> st = 0) \<longrightarrow>
              gpe_refcount 0x4F ([] @ new) = gpe_refcount 0x4F []"
    by blast+
  have dis: "\<forall>g' st. (Acpi_disable_gpe g', st) \<in> set new \<longrightarrow> st = 0"
    unfolding n by simp
  from rf dis have rf': "gpe_refcount 0x4F new = gpe_refcount 0x4F []" by simp
  have "lifecycle_state pdev_l4F [] = Unregistered"
    by (simp add: lifecycle_state_def pdev_l4F_def)
  moreover have "gpe_refcount 0x4F [] = 0"
    by (simp add: gpe_refcount_def)
  ultimately show ?thesis
    using run lc rf' unfolding n p by simp
qed



text \<open>
  C6. Suspending twice in a row: once a first suspend has armed a registered wake source,
  a second suspend makes one more \<^verbatim>\<open>acpi_set_gpe_wake_mask\<close> call asking for
  enable and nothing else. Whatever the firmware answers to it, the lifecycle state stays
  armed, and no wake mask and no enable count of any GPE changes.
\<close>

theorem suspend_twice_idempotent:
  assumes "drvdata pdev = Some dev"
    and "surface_gpe_suspend fw pdev log = Inr (0, log1)"
  shows "\<exists>rc st.
           surface_gpe_suspend fw pdev log1 =
             Inr (rc, log1 @ [(Acpi_set_gpe_wake_mask (gpe_number dev) ACPI_GPE_ENABLE, st)]) \<and>
           lifecycle_state pdev log1 = Registered_armed \<and>
           lifecycle_state pdev
             (log1 @ [(Acpi_set_gpe_wake_mask (gpe_number dev) ACPI_GPE_ENABLE, st)])
             = Registered_armed \<and>
           (\<forall>g. wake_mask g
                  (log1 @ [(Acpi_set_gpe_wake_mask (gpe_number dev) ACPI_GPE_ENABLE, st)])
                = wake_mask g log1) \<and>
           (\<forall>g. gpe_refcount g
                  (log1 @ [(Acpi_set_gpe_wake_mask (gpe_number dev) ACPI_GPE_ENABLE, st)])
                = gpe_refcount g log1)"
proof -
  let ?en = "Acpi_set_gpe_wake_mask (gpe_number dev) ACPI_GPE_ENABLE"
  from assms have l1: "log1 = log @ [(?en, 0)]"
    by (simp add: surface_gpe_suspend_def enable_wakeup_registered EFAULT_def split: if_splits)
  have m1: "wake_mask (gpe_number dev) log1 = ACPI_GPE_ENABLE"
    by (simp add: l1 wake_mask_append)
  define st where "st = fw log1 ?en"
  define rc :: int where "rc = (if st \<noteq> 0 then - EFAULT else 0)"
  have s2: "surface_gpe_suspend fw pdev log1 = Inr (rc, log1 @ [(?en, st)])"
    by (simp add: surface_gpe_suspend_def assms(1) enable_wakeup_registered st_def rc_def)
  have wm: "\<And>g. wake_mask g (log1 @ [(?en, st)]) = wake_mask g log1"
    using m1 by (auto simp: wake_mask_append)
  have a1: "lifecycle_state pdev log1 = Registered_armed"
    by (simp add: lifecycle_state_def assms(1) m1)
  have a2: "lifecycle_state pdev (log1 @ [(?en, st)]) = Registered_armed"
    using lifecycle_state_cong[of "log1 @ [(?en, st)]" log1 pdev] wm a1 by simp
  have rf: "\<And>g. gpe_refcount g (log1 @ [(?en, st)]) = gpe_refcount g log1"
    by (simp add: gpe_refcount_append)
  show ?thesis
    apply (rule exI[of _ rc])
    apply (rule exI[of _ st])
    using s2 a1 a2 wm rf by blast
qed

theorem suspend_twice_idempotent_witness:
  "surface_gpe_suspend fw_ok pdev_l4F_registered
       [(Acpi_set_gpe_wake_mask 0x4F ACPI_GPE_DISABLE, 0)] =
     Inr (0, [(Acpi_set_gpe_wake_mask 0x4F ACPI_GPE_DISABLE, 0),
              (Acpi_set_gpe_wake_mask 0x4F ACPI_GPE_ENABLE, 0)]) \<and>
   surface_gpe_suspend fw_ok pdev_l4F_registered
       [(Acpi_set_gpe_wake_mask 0x4F ACPI_GPE_DISABLE, 0),
        (Acpi_set_gpe_wake_mask 0x4F ACPI_GPE_ENABLE, 0)] =
     Inr (0, [(Acpi_set_gpe_wake_mask 0x4F ACPI_GPE_DISABLE, 0),
              (Acpi_set_gpe_wake_mask 0x4F ACPI_GPE_ENABLE, 0),
              (Acpi_set_gpe_wake_mask 0x4F ACPI_GPE_ENABLE, 0)]) \<and>
   lifecycle_state pdev_l4F_registered
       [(Acpi_set_gpe_wake_mask 0x4F ACPI_GPE_DISABLE, 0),
        (Acpi_set_gpe_wake_mask 0x4F ACPI_GPE_ENABLE, 0),
        (Acpi_set_gpe_wake_mask 0x4F ACPI_GPE_ENABLE, 0)] = Registered_armed"
proof -
  let ?log = "[(Acpi_set_gpe_wake_mask 0x4F ACPI_GPE_DISABLE, 0)]"
  let ?en = "(Acpi_set_gpe_wake_mask 0x4F ACPI_GPE_ENABLE, 0 :: acpi_status)"
  have g: "gpe_number lid_device_l4F = 0x4F"
    by (simp add: lid_device_l4F_def)
  have h1: "drvdata pdev_l4F_registered = Some lid_device_l4F"
    by (simp add: pdev_l4F_registered_def)
  have h2: "surface_gpe_suspend fw_ok pdev_l4F_registered ?log = Inr (0, ?log @ [?en])"
    by (simp add: surface_gpe_suspend_def surface_lid_enable_wakeup_def acpi_def fw_ok_def
        pdev_l4F_registered_def lid_device_l4F_def)
  have s2: "surface_gpe_suspend fw_ok pdev_l4F_registered (?log @ [?en]) =
              Inr (0, ?log @ [?en, ?en])"
    by (simp add: surface_gpe_suspend_def surface_lid_enable_wakeup_def acpi_def fw_ok_def
        pdev_l4F_registered_def lid_device_l4F_def)
  obtain rc st where
    t2: "surface_gpe_suspend fw_ok pdev_l4F_registered (?log @ [?en]) =
           Inr (rc, (?log @ [?en]) @ [(Acpi_set_gpe_wake_mask 0x4F ACPI_GPE_ENABLE, st)])"
    and a2: "lifecycle_state pdev_l4F_registered
               ((?log @ [?en]) @ [(Acpi_set_gpe_wake_mask 0x4F ACPI_GPE_ENABLE, st)])
             = Registered_armed"
    using suspend_twice_idempotent[OF h1 h2] unfolding g by blast
  from t2 s2 have e: "rc = 0" "st = 0" by simp_all
  from a2 h2 s2 show ?thesis unfolding e by simp
qed

text \<open>
  C7, amended. \<^verbatim>\<open>surface_gpe_remove\<close> on a registered wake source, armed or not, always
  makes both firmware calls, in order: set the wake mask to disabled, then disable the
  GPE. The second is made whatever the first answered. It then clears the driver data and
  returns \<open>0\<close>: the lifecycle state is unregistered. Restoring the default is best effort,
  since both statuses are discarded: the wake mask is disabled where the firmware accepts
  the mask call or the mask was disabled already, and the enable count has gone down by
  one where the firmware accepts the disable call.
\<close>

theorem remove_attempts_all_cleanup:
  assumes "drvdata pdev = Some dev"
  shows "\<exists>st1 st2.
           st1 = fw log (Acpi_set_gpe_wake_mask (gpe_number dev) ACPI_GPE_DISABLE) \<and>
           st2 = fw (log @ [(Acpi_set_gpe_wake_mask (gpe_number dev) ACPI_GPE_DISABLE, st1)])
                    (Acpi_disable_gpe (gpe_number dev)) \<and>
           surface_gpe_remove fw pdev log =
             Inr (0, pdev\<lparr>drvdata := None\<rparr>,
                  log @ [(Acpi_set_gpe_wake_mask (gpe_number dev) ACPI_GPE_DISABLE, st1),
                         (Acpi_disable_gpe (gpe_number dev), st2)]) \<and>
           lifecycle_state (pdev\<lparr>drvdata := None\<rparr>)
             (log @ [(Acpi_set_gpe_wake_mask (gpe_number dev) ACPI_GPE_DISABLE, st1),
                     (Acpi_disable_gpe (gpe_number dev), st2)]) = Unregistered \<and>
           (st1 = 0 \<or> wake_mask (gpe_number dev) log = ACPI_GPE_DISABLE \<longrightarrow>
              wake_mask (gpe_number dev)
                (log @ [(Acpi_set_gpe_wake_mask (gpe_number dev) ACPI_GPE_DISABLE, st1),
                        (Acpi_disable_gpe (gpe_number dev), st2)]) = ACPI_GPE_DISABLE) \<and>
           (st2 = 0 \<longrightarrow>
              gpe_refcount (gpe_number dev)
                (log @ [(Acpi_set_gpe_wake_mask (gpe_number dev) ACPI_GPE_DISABLE, st1),
                        (Acpi_disable_gpe (gpe_number dev), st2)])
              = gpe_refcount (gpe_number dev) log - 1)"
  using assms
  by (simp add: surface_gpe_remove_def enable_wakeup_registered acpi_def lifecycle_state_def
      wake_mask_def gpe_refcount_def)

theorem remove_attempts_all_cleanup_witness:
  "surface_gpe_remove fw_refuses_mask pdev_l4F_registered
       [(Acpi_set_gpe_wake_mask 0x4F ACPI_GPE_ENABLE, 0)] =
     Inr (0, pdev_l4F_registered\<lparr>drvdata := None\<rparr>,
          [(Acpi_set_gpe_wake_mask 0x4F ACPI_GPE_ENABLE, 0),
           (Acpi_set_gpe_wake_mask 0x4F ACPI_GPE_DISABLE, 1),
           (Acpi_disable_gpe 0x4F, 0)]) \<and>
   lifecycle_state (pdev_l4F_registered\<lparr>drvdata := None\<rparr>)
          [(Acpi_set_gpe_wake_mask 0x4F ACPI_GPE_ENABLE, 0),
           (Acpi_set_gpe_wake_mask 0x4F ACPI_GPE_DISABLE, 1),
           (Acpi_disable_gpe 0x4F, 0)] = Unregistered"
proof -
  have g: "gpe_number lid_device_l4F = 0x4F"
    by (simp add: lid_device_l4F_def)
  have h: "drvdata pdev_l4F_registered = Some lid_device_l4F"
    by (simp add: pdev_l4F_registered_def)
  have f1: "fw_refuses_mask [(Acpi_set_gpe_wake_mask 0x4F ACPI_GPE_ENABLE, 0)]
              (Acpi_set_gpe_wake_mask 0x4F ACPI_GPE_DISABLE) = 1"
    by (simp add: fw_refuses_mask_def)
  have f2: "fw_refuses_mask ([(Acpi_set_gpe_wake_mask 0x4F ACPI_GPE_ENABLE, 0)] @
                             [(Acpi_set_gpe_wake_mask 0x4F ACPI_GPE_DISABLE, 1)])
              (Acpi_disable_gpe 0x4F) = 0"
    by (simp add: fw_refuses_mask_def)
  from remove_attempts_all_cleanup[OF h, of fw_refuses_mask
      "[(Acpi_set_gpe_wake_mask 0x4F ACPI_GPE_ENABLE, 0)]"]
  show ?thesis unfolding g f1 by (simp add: fw_refuses_mask_def)
qed

text \<open>
  C7 without the amendment does not hold: the default is not restored when the firmware
  refuses the cleanup calls. The lid device is probed and suspended, which arms it; the
  firmware then refuses both calls of \<^verbatim>\<open>surface_gpe_remove\<close>, which still returns \<open>0\<close>
  and leaves the lifecycle state unregistered, while the wake mask stays enabled and the
  enable count stays at one. Before the driver ran they were disabled and zero.
\<close>

theorem remove_refused_leaves_armed_counterexample:
  "surface_gpe_probe fw_refuses_once_armed pdev_l4F [] =
     Inr (0, pdev_l4F\<lparr>drvdata := Some lid_device_l4F\<rparr>, butlast log_armed) \<and>
   surface_gpe_suspend fw_refuses_once_armed (pdev_l4F\<lparr>drvdata := Some lid_device_l4F\<rparr>)
       (butlast log_armed) = Inr (0, log_armed) \<and>
   lifecycle_state (pdev_l4F\<lparr>drvdata := Some lid_device_l4F\<rparr>) log_armed = Registered_armed \<and>
   surface_gpe_remove fw_refuses_once_armed (pdev_l4F\<lparr>drvdata := Some lid_device_l4F\<rparr>)
       log_armed =
     Inr (0, pdev_l4F\<lparr>drvdata := None\<rparr>,
          log_armed @ [(Acpi_set_gpe_wake_mask 0x4F ACPI_GPE_DISABLE, 1),
                       (Acpi_disable_gpe 0x4F, 1)]) \<and>
   lifecycle_state (pdev_l4F\<lparr>drvdata := None\<rparr>)
       (log_armed @ [(Acpi_set_gpe_wake_mask 0x4F ACPI_GPE_DISABLE, 1),
                     (Acpi_disable_gpe 0x4F, 1)]) = Unregistered \<and>
   wake_mask 0x4F (log_armed @ [(Acpi_set_gpe_wake_mask 0x4F ACPI_GPE_DISABLE, 1),
                                (Acpi_disable_gpe 0x4F, 1)]) = ACPI_GPE_ENABLE \<and>
   wake_mask 0x4F [] = ACPI_GPE_DISABLE \<and>
   gpe_refcount 0x4F (log_armed @ [(Acpi_set_gpe_wake_mask 0x4F ACPI_GPE_DISABLE, 1),
                                   (Acpi_disable_gpe 0x4F, 1)]) = 1 \<and>
   gpe_refcount 0x4F [] = 0"
  by (simp add: surface_gpe_probe_def surface_gpe_suspend_def surface_gpe_remove_def
      surface_lid_enable_wakeup_def acpi_def fw_refuses_once_armed_def log_armed_def
      pdev_l4F_def lid_device_l4F_def lifecycle_state_def wake_mask_def gpe_refcount_def)

lemma probe_errno_of_log:
  assumes "surface_gpe_probe fw pdev log = Inr (rc, pdev', log @ new)"
    and "rc = (if \<exists>c st. (c, st) \<in> set new \<and> st \<noteq> 0 then - EFAULT else 0)"
  shows "\<exists>pdev' new. surface_gpe_probe fw pdev log =
           Inr (if \<exists>c st. (c, st) \<in> set new \<and> st \<noteq> 0 then - EFAULT else 0, pdev', log @ new)"
  using assms by blast

lemma probe_reports_EFAULT:
  assumes "platform_data pdev = Some dev"
  shows "\<exists>pdev' new. surface_gpe_probe fw pdev log =
           Inr (if \<exists>c st. (c, st) \<in> set new \<and> st \<noteq> 0 then - EFAULT else 0, pdev', log @ new)"
proof -
  consider
    (lookup) st where "st \<noteq> 0" "surface_gpe_probe fw pdev log =
            Inr (- EFAULT, pdev, log @ [(Acpi_get_handle (acpi_path dev), st)])"
  | (mark) st where "st \<noteq> 0" "surface_gpe_probe fw pdev log =
            Inr (- EFAULT, pdev, log @ [(Acpi_get_handle (acpi_path dev), 0),
                                       (Acpi_mark_gpe_for_wake (gpe_number dev), st)])"
  | (enable) st where "st \<noteq> 0" "surface_gpe_probe fw pdev log =
            Inr (- EFAULT, pdev, log @ [(Acpi_get_handle (acpi_path dev), 0),
                                       (Acpi_mark_gpe_for_wake (gpe_number dev), 0),
                                       (Acpi_enable_gpe (gpe_number dev), st)])"
  | (mask) st st' where "st \<noteq> 0" "surface_gpe_probe fw pdev log =
            Inr (- EFAULT, pdev, log @ [(Acpi_get_handle (acpi_path dev), 0),
                                       (Acpi_mark_gpe_for_wake (gpe_number dev), 0),
                                       (Acpi_enable_gpe (gpe_number dev), 0),
                                       (Acpi_set_gpe_wake_mask (gpe_number dev) ACPI_GPE_DISABLE, st),
                                       (Acpi_disable_gpe (gpe_number dev), st')])"
  | (ok) "surface_gpe_probe fw pdev log =
            Inr (0, pdev\<lparr>drvdata := Some dev\<rparr>,
                 log @ [(Acpi_get_handle (acpi_path dev), 0),
                        (Acpi_mark_gpe_for_wake (gpe_number dev), 0),
                        (Acpi_enable_gpe (gpe_number dev), 0),
                        (Acpi_set_gpe_wake_mask (gpe_number dev) ACPI_GPE_DISABLE, 0)])"
    using probe_cases[OF assms, of fw log] by blast
  then show ?thesis
  proof cases
    case lookup
    show ?thesis by (rule probe_errno_of_log[OF lookup(2)]) (simp add: lookup(1))
  next
    case mark
    show ?thesis by (rule probe_errno_of_log[OF mark(2)]) (use mark(1) in auto)
  next
    case enable
    show ?thesis by (rule probe_errno_of_log[OF enable(2)]) (use enable(1) in auto)
  next
    case mask
    show ?thesis by (rule probe_errno_of_log[OF mask(2)]) (use mask(1) in auto)
  next
    case ok
    show ?thesis by (rule probe_errno_of_log[OF ok]) auto
  qed
qed

lemma enable_wakeup_reports_EFAULT:
  "\<exists>new. surface_lid_enable_wakeup fw (Some dev) enable log =
           Inr (if \<exists>c st. (c, st) \<in> set new \<and> st \<noteq> 0 then - EFAULT else 0, log @ new)"
  by (rule exI[of _ "[(Acpi_set_gpe_wake_mask (gpe_number dev)
                        (if enable then ACPI_GPE_ENABLE else ACPI_GPE_DISABLE),
                      fw log (Acpi_set_gpe_wake_mask (gpe_number dev)
                        (if enable then ACPI_GPE_ENABLE else ACPI_GPE_DISABLE)))]"])
     (simp add: enable_wakeup_registered)

text \<open>
  C9. Probe, suspend and resume report one error value for a failed firmware call: they
  return \<^verbatim>\<open>-EFAULT\<close> when any of the calls they made was refused, whichever call it
  was and whatever status it got, and \<open>0\<close> otherwise.
\<close>

theorem firmware_failure_single_errno:
  "(platform_data pdev = Some dev \<longrightarrow>
      (\<exists>pdev' new. surface_gpe_probe fw pdev log =
         Inr (if \<exists>c st. (c, st) \<in> set new \<and> st \<noteq> 0 then - EFAULT else 0, pdev', log @ new))) \<and>
   (drvdata pdev = Some dev \<longrightarrow>
      (\<exists>new. surface_gpe_suspend fw pdev log =
         Inr (if \<exists>c st. (c, st) \<in> set new \<and> st \<noteq> 0 then - EFAULT else 0, log @ new)) \<and>
      (\<exists>new. surface_gpe_resume fw pdev log =
         Inr (if \<exists>c st. (c, st) \<in> set new \<and> st \<noteq> 0 then - EFAULT else 0, log @ new)))"
  using probe_reports_EFAULT[of pdev dev fw log]
    enable_wakeup_reports_EFAULT[of fw dev True log]
    enable_wakeup_reports_EFAULT[of fw dev False log]
  by (simp add: surface_gpe_suspend_def surface_gpe_resume_def)

theorem firmware_failure_single_errno_witness:
  "surface_gpe_probe fw_refuses_mark pdev_l4F_registered [] =
     Inr (- 14, pdev_l4F_registered,
          [(Acpi_get_handle SB_LID0, 0), (Acpi_mark_gpe_for_wake 0x4F, 5)]) \<and>
   surface_gpe_suspend fw_refuses_mask pdev_l4F_registered [] =
     Inr (- 14, [(Acpi_set_gpe_wake_mask 0x4F ACPI_GPE_ENABLE, 1)]) \<and>
   surface_gpe_resume fw_refuses_mask pdev_l4F_registered [] =
     Inr (- 14, [(Acpi_set_gpe_wake_mask 0x4F ACPI_GPE_DISABLE, 1)])"
proof -
  have h1: "platform_data pdev_l4F_registered = Some lid_device_l4F"
    and h2: "drvdata pdev_l4F_registered = Some lid_device_l4F"
    by (simp_all add: pdev_l4F_registered_def)
  have r1: "surface_gpe_probe fw_refuses_mark pdev_l4F_registered [] =
     Inr (- 14, pdev_l4F_registered,
          [(Acpi_get_handle SB_LID0, 0), (Acpi_mark_gpe_for_wake 0x4F, 5)])"
    by (simp add: surface_gpe_probe_def acpi_def fw_refuses_mark_def
        pdev_l4F_registered_def lid_device_l4F_def EFAULT_def)
  have r2: "surface_gpe_suspend fw_refuses_mask pdev_l4F_registered [] =
     Inr (- 14, [(Acpi_set_gpe_wake_mask 0x4F ACPI_GPE_ENABLE, 1)])"
    by (simp add: surface_gpe_suspend_def surface_lid_enable_wakeup_def acpi_def
        fw_refuses_mask_def pdev_l4F_registered_def lid_device_l4F_def EFAULT_def)
  have r3: "surface_gpe_resume fw_refuses_mask pdev_l4F_registered [] =
     Inr (- 14, [(Acpi_set_gpe_wake_mask 0x4F ACPI_GPE_DISABLE, 1)])"
    by (simp add: surface_gpe_resume_def surface_lid_enable_wakeup_def acpi_def
        fw_refuses_mask_def pdev_l4F_registered_def lid_device_l4F_def EFAULT_def)
  from firmware_failure_single_errno[of pdev_l4F_registered lid_device_l4F fw_refuses_mark "[]"]
    firmware_failure_single_errno[of pdev_l4F_registered lid_device_l4F fw_refuses_mask "[]"]
    h1 h2 r1 r2 r3
  show ?thesis by simp
qed

section \<open>Module initialisation and exit: properties\<close>

lemma probe_never_faults:
  "\<exists>rc pdev' log'. surface_gpe_probe fw pdev log = Inr (rc, pdev', log')"
proof (cases "platform_data pdev")
  case None
  then show ?thesis by (simp add: surface_gpe_probe_def)
next
  case (Some dev)
  from probe_cases[OF Some, of fw log] show ?thesis by blast
qed

lemma init_device_fresh:
  assumes "surface_gpe_init env sysid table s0 = (rc, s1)"
    and "surface_gpe_device s1 = Some pdev"
  shows "rc = 0 \<and> drvdata pdev = None \<and> \<not> driver_bound pdev \<and> fw_log s1 = fw_log s0"
  using assms
  by (auto simp: surface_gpe_init_def platform_driver_register_def platform_device_alloc_def
      platform_device_add_data_def platform_device_add_def platform_driver_unregister_def
      platform_device_put_def Let_def split: option.splits if_splits)

lemma init_failure_no_device:
  assumes "surface_gpe_init env sysid table s0 = (rc, s1)" and "rc \<noteq> 0"
  shows "surface_gpe_device s1 = None"
  using assms init_device_fresh[OF assms(1)] by (cases "surface_gpe_device s1") auto

text \<open>
  After initialisation the driver is bound to the device exactly when the device carries
  driver data, and exactly when the hook reported success.
\<close>

lemma on_init_total:
  "\<exists>r s1. on_init env fw sysid table s0 = Inr (r, s1)"
proof -
  obtain rc s1 where i: "surface_gpe_init env sysid table s0 = (rc, s1)"
    by (cases "surface_gpe_init env sysid table s0")
  show ?thesis
  proof (cases "surface_gpe_device s1")
    case None
    with i show ?thesis by (simp add: on_init_def)
  next
    case (Some pdev)
    obtain rc1 pdev1 log1 where "surface_gpe_probe fw pdev (fw_log s1) = Inr (rc1, pdev1, log1)"
      using probe_never_faults by blast
    with i Some show ?thesis by (simp add: on_init_def driver_core_probe_def)
  qed
qed

lemma on_init_bound_iff:
  assumes "on_init env fw sysid table s0 = Inr (r, s1)"
    and "surface_gpe_device s1 = Some pdev"
  shows "(driver_bound pdev \<longleftrightarrow> r = Init_ok) \<and> (driver_bound pdev \<longleftrightarrow> drvdata pdev \<noteq> None)"
proof -
  obtain rc s where i: "surface_gpe_init env sysid table s0 = (rc, s)"
    by (cases "surface_gpe_init env sysid table s0")
  show ?thesis
  proof (cases "rc \<noteq> 0 \<or> surface_gpe_device s = None")
    case True
    with i assms init_failure_no_device[OF i] show ?thesis
      by (auto simp: on_init_def split: if_splits)
  next
    case False
    then obtain p where p: "surface_gpe_device s = Some p" and rc: "rc = 0" by auto
    from init_device_fresh[OF i p] have fresh: "drvdata p = None" by simp
    obtain rc1 p1 log1 where pr: "surface_gpe_probe fw p (fw_log s) = Inr (rc1, p1, log1)"
      using probe_never_faults by blast
    have d: "drvdata p1 \<noteq> None \<longleftrightarrow> rc1 = 0"
    proof (cases "platform_data p")
      case None
      with pr fresh show ?thesis by (auto simp: surface_gpe_probe_def ENODEV_def)
    next
      case (Some dev)
      from probe_cases[OF Some, of fw "fw_log s"] pr fresh show ?thesis
        by (auto simp: EFAULT_def)
    qed
    from i p rc pr assms have "pdev = p1\<lparr>driver_bound := (rc1 = 0)\<rparr>"
      and "r = (if rc1 = 0 then Init_ok else Init_err rc1)"
      by (auto simp: on_init_def driver_core_probe_def)
    with d show ?thesis by auto
  qed
qed

text \<open>
  C8. Module exit with no wake source registered: when the global device pointer is unset
  (no entry matched, or initialisation failed), \<^verbatim>\<open>surface_gpe_exit\<close> returns at once
  and changes nothing; when a device exists but the driver never bound to it (probe
  failed), exit unregisters device and driver without calling \<^verbatim>\<open>.remove\<close>. In both
  cases it returns without a fault and makes no firmware call.
\<close>

theorem exit_without_wake_source:
  assumes "surface_gpe_device s = None \<or>
           (\<exists>pdev. surface_gpe_device s = Some pdev \<and> \<not> driver_bound pdev)"
  shows "\<exists>s'. surface_gpe_exit fw s = Inr s' \<and> fw_log s' = fw_log s \<and>
              (surface_gpe_device s = None \<longrightarrow> s' = s)"
  using assms
  by (auto simp: surface_gpe_exit_def platform_device_unregister_def
      platform_driver_unregister_def platform_device_put_def)

theorem exit_without_wake_source_witness:
  "surface_gpe_device state_at_load = None \<and>
   surface_gpe_exit fw_ok state_at_load = Inr state_at_load \<and>
   surface_gpe_exit fw_ok state_probe_failed =
     Inr (state_probe_failed\<lparr>registered_drivers := 0, live_devices := 0\<rparr>) \<and>
   fw_log (state_probe_failed\<lparr>registered_drivers := 0, live_devices := 0\<rparr>)
     = [(Acpi_get_handle SB_LID0, 7)]"
proof -
  have h: "surface_gpe_device state_at_load = None"
    by (simp add: state_at_load_def)
  have h': "surface_gpe_device state_probe_failed = None \<or>
            (\<exists>pdev. surface_gpe_device state_probe_failed = Some pdev \<and> \<not> driver_bound pdev)"
    by (simp add: state_probe_failed_def pdev_l4F_def)
  have e: "surface_gpe_exit fw_ok state_probe_failed =
     Inr (state_probe_failed\<lparr>registered_drivers := 0, live_devices := 0\<rparr>)"
    by (simp add: surface_gpe_exit_def platform_device_unregister_def
        platform_driver_unregister_def platform_device_put_def state_probe_failed_def
        pdev_l4F_def)
  from exit_without_wake_source[of state_at_load fw_ok] h have
    "surface_gpe_exit fw_ok state_at_load = Inr state_at_load" by auto
  moreover from exit_without_wake_source[OF h', of fw_ok] e have
    "fw_log (state_probe_failed\<lparr>registered_drivers := 0, live_devices := 0\<rparr>)
       = fw_log state_probe_failed" by auto
  ultimately show ?thesis using h e by (simp add: state_probe_failed_def)
qed

text \<open>
  The hook sequence never reaches the unguarded read in \<^verbatim>\<open>surface_gpe_remove\<close>:
  whatever the platform and the firmware answer, exit after initialisation returns.
\<close>

lemma exit_after_init_returns:
  assumes "on_init env fw sysid table s0 = Inr (r, s1)"
  shows "\<exists>s2. surface_gpe_exit fw' s1 = Inr s2 \<and> (r \<noteq> Init_ok \<longrightarrow> fw_log s2 = fw_log s1)"
proof (cases "surface_gpe_device s1")
  case None
  then show ?thesis by (simp add: surface_gpe_exit_def)
next
  case (Some pdev)
  note b = on_init_bound_iff[OF assms Some]
  show ?thesis
  proof (cases "driver_bound pdev")
    case False
    with Some b show ?thesis
      by (simp add: surface_gpe_exit_def platform_device_unregister_def
          platform_driver_unregister_def platform_device_put_def)
  next
    case True
    with b obtain dev where dev: "drvdata pdev = Some dev" and ok: "r = Init_ok" by auto
    from Some True dev ok show ?thesis
      by (simp add: surface_gpe_exit_def platform_device_unregister_def surface_gpe_remove_def
          enable_wakeup_registered acpi_def)
  qed
qed

lemma remove_unregistered_faults:
  "drvdata pdev = None \<Longrightarrow> surface_gpe_remove fw pdev log = Inl NULL_dereference"
  by (simp add: surface_gpe_remove_def surface_lid_enable_wakeup_def)

text \<open>
  C10. When a table entry matched and a step of \<^verbatim>\<open>surface_gpe_init\<close> after the match
  fails (registering the driver, allocating the device, attaching the descriptor, adding
  the device), initialisation returns the error of that step, and the state it leaves is
  the state it started from with the global device pointer unset: the registrations and
  allocations made so far have been undone and no firmware call was made. Module exit in
  that state changes nothing.
\<close>

theorem init_failure_is_atomic:
  assumes "dmi_first_match sysid table = Some m"
    and "driver_register_status env \<noteq> 0 \<or> \<not> device_alloc_ok env \<or>
         device_add_data_status env \<noteq> 0 \<or> device_add_status env \<noteq> 0"
  shows "\<exists>rc. rc \<noteq> 0 \<and>
           rc = (if driver_register_status env \<noteq> 0 then driver_register_status env
                 else if \<not> device_alloc_ok env then - ENOMEM
                 else if device_add_data_status env \<noteq> 0 then device_add_data_status env
                 else device_add_status env) \<and>
           surface_gpe_init env sysid table s = (rc, s\<lparr>surface_gpe_device := None\<rparr>) \<and>
           surface_gpe_exit fw (s\<lparr>surface_gpe_device := None\<rparr>)
             = Inr (s\<lparr>surface_gpe_device := None\<rparr>)"
  using assms
  by (auto simp: surface_gpe_init_def platform_driver_register_def platform_device_alloc_def
      platform_device_add_data_def platform_device_add_def platform_driver_unregister_def
      platform_device_put_def surface_gpe_exit_def ENOMEM_def)

theorem init_failure_is_atomic_witness:
  "dmi_first_match surface_pro_5 dmi_lid_device_table = Some (dmi_lid_device_table ! 1) \<and>
   surface_gpe_init env_add_fails surface_pro_5 dmi_lid_device_table state_at_load
     = (- 17, state_at_load) \<and>
   surface_gpe_exit fw_ok state_at_load = Inr state_at_load"
proof -
  have h1: "dmi_first_match surface_pro_5 dmi_lid_device_table = Some (dmi_lid_device_table ! 1)"
    by (simp add: dmi_lid_device_table_def surface_pro_5_def dmi_matches_def
        dmi_is_end_of_table_def Microsoft_def)
  have h2: "driver_register_status env_add_fails \<noteq> 0 \<or> \<not> device_alloc_ok env_add_fails \<or>
         device_add_data_status env_add_fails \<noteq> 0 \<or> device_add_status env_add_fails \<noteq> 0"
    by (simp add: env_add_fails_def)
  from init_failure_is_atomic[OF h1 h2, of state_at_load fw_ok]
  show ?thesis using h1 by (simp add: env_add_fails_def state_at_load_def)
qed

text \<open>
  The hooks of the specification in terms of the callbacks: a successful initialisation
  hook is a successful probe of a fresh device carrying the matched descriptor.
\<close>

lemma init_device_carries_match:
  assumes "surface_gpe_init env sysid table s0 = (rc, s1)"
    and "surface_gpe_device s1 = Some pdev"
  shows "platform_data pdev = match_lid_device sysid table"
  using assms
  by (auto simp: surface_gpe_init_def match_lid_device_def platform_driver_register_def
      platform_device_alloc_def platform_device_add_data_def platform_device_add_def
      platform_driver_unregister_def platform_device_put_def Let_def
      split: option.splits if_splits)

lemma on_init_ok_registers:
  assumes "on_init env fw sysid table s0 = Inr (Init_ok, s1)"
  shows "\<exists>dev pdev.
           match_lid_device sysid table = Some dev \<and>
           surface_gpe_device s1 = Some pdev \<and> drvdata pdev = Some dev \<and> driver_bound pdev \<and>
           fw_log s1 = fw_log s0 @ [(Acpi_get_handle (acpi_path dev), 0),
                                    (Acpi_mark_gpe_for_wake (gpe_number dev), 0),
                                    (Acpi_enable_gpe (gpe_number dev), 0),
                                    (Acpi_set_gpe_wake_mask (gpe_number dev) ACPI_GPE_DISABLE, 0)] \<and>
           lifecycle_state pdev (fw_log s1) = Registered_disarmed"
proof -
  obtain rc s where i: "surface_gpe_init env sysid table s0 = (rc, s)"
    by (cases "surface_gpe_init env sysid table s0")
  from assms i have rc: "rc = 0" and nn: "surface_gpe_device s \<noteq> None"
    by (auto simp: on_init_def split: if_splits)
  then obtain p where p: "surface_gpe_device s = Some p" by auto
  from init_device_fresh[OF i p] have lg: "fw_log s = fw_log s0" by simp
  obtain rc1 p1 log1 where pr: "surface_gpe_probe fw p (fw_log s) = Inr (rc1, p1, log1)"
    using probe_never_faults by blast
  from assms i rc p pr have rc1: "rc1 = 0"
    and s1: "s1 = s\<lparr>surface_gpe_device := Some (p1\<lparr>driver_bound := True\<rparr>), fw_log := log1\<rparr>"
    by (auto simp: on_init_def driver_core_probe_def split: if_splits)
  have "platform_data p \<noteq> None"
  proof
    assume "platform_data p = None"
    with pr rc1 show False by (simp add: surface_gpe_probe_def ENODEV_def)
  qed
  then obtain dev where dev: "platform_data p = Some dev" by auto
  with init_device_carries_match[OF i p] have m: "match_lid_device sysid table = Some dev"
    by simp
  from probe_cases[OF dev, of fw "fw_log s"] pr rc1
  have l1: "log1 = fw_log s @ [(Acpi_get_handle (acpi_path dev), 0),
                              (Acpi_mark_gpe_for_wake (gpe_number dev), 0),
                              (Acpi_enable_gpe (gpe_number dev), 0),
                              (Acpi_set_gpe_wake_mask (gpe_number dev) ACPI_GPE_DISABLE, 0)]"
    and p1: "p1 = p\<lparr>drvdata := Some dev\<rparr>"
    by (auto simp: EFAULT_def)
  have w: "wake_mask (gpe_number dev) log1 = ACPI_GPE_DISABLE"
    by (simp add: l1 wake_mask_def)
  show ?thesis
    apply (rule exI[of _ dev])
    apply (rule exI[of _ "p1\<lparr>driver_bound := True\<rparr>"])
    using m s1 l1 p1 lg w by (simp add: lifecycle_state_def)
qed

text \<open>Exit with a registered wake source runs the cleanup of \<^verbatim>\<open>surface_gpe_remove\<close>.\<close>

lemma exit_registered:
  assumes "surface_gpe_device s = Some pdev" and "driver_bound pdev"
    and "drvdata pdev = Some dev"
  shows "\<exists>st1 st2 s'.
           surface_gpe_exit fw s = Inr s' \<and>
           fw_log s' = fw_log s @ [(Acpi_set_gpe_wake_mask (gpe_number dev) ACPI_GPE_DISABLE, st1),
                                 (Acpi_disable_gpe (gpe_number dev), st2)] \<and>
           surface_gpe_device s' = Some (pdev\<lparr>drvdata := None, driver_bound := False\<rparr>) \<and>
           registered_drivers s' = registered_drivers s - 1 \<and>
           live_devices s' = live_devices s - 1"
  using assms
  by (simp add: surface_gpe_exit_def platform_device_unregister_def surface_gpe_remove_def
      enable_wakeup_registered acpi_def platform_driver_unregister_def platform_device_put_def)

end
